theory Spec2Isabelle
  imports Complex_Main
begin

section \<open>Session data and route guards\<close>

text \<open>
  The identity held by the authentication context, as the views read it:
  \<^verbatim>\<open>user.id\<close>, \<^verbatim>\<open>user.email\<close>, \<^verbatim>\<open>user.role\<close>. The role is kept as the string the code
  compares against the literals \<^verbatim>\<open>'operator'\<close> and \<^verbatim>\<open>'user'\<close>.
\<close>

record user =
  user_id :: int
  user_email :: string
  user_role :: string

text \<open>What \<^verbatim>\<open>useAuth()\<close> hands to a component: \<^verbatim>\<open>{ user, loading }\<close>.\<close>

record auth =
  auth_user :: "user option"
  auth_loading :: bool

text \<open>
  \<^verbatim>\<open>requiredRole?: 'operator' | 'user'\<close> of \<^verbatim>\<open>ProtectedRouteProps\<close>: a union of two string
  literals, optional.
\<close>

datatype required_role = Operator | User

fun role_name :: "required_role \<Rightarrow> string" where
  "role_name Operator = ''operator''"
| "role_name User = ''user''"

text \<open>
  What a guard returns: the progress indicator, a \<^verbatim>\<open><Navigate to=... replace />\<close>,
  or its children.
\<close>

datatype 'c element = Spinner | Navigate string | Children 'c

text \<open>\<^verbatim>\<open>ProtectedRoute\<close> of \<^verbatim>\<open>components/ProtectedRoute.tsx\<close>, branch by branch.\<close>

definition ProtectedRoute :: "auth \<Rightarrow> required_role option \<Rightarrow> 'c \<Rightarrow> 'c element" where
  "ProtectedRoute a requiredRole children =
     (if auth_loading a then Spinner
      else case auth_user a of
        None \<Rightarrow> Navigate ''/login''
      | Some u \<Rightarrow>
          (case requiredRole of
             None \<Rightarrow> Children children
           | Some r \<Rightarrow>
               if user_role u \<noteq> role_name r then
                 (if r = Operator then Navigate ''/''
                  else if r = User then Navigate ''/''
                  else Children children)
               else Children children))"

text \<open>
  The role-based landing route, the expression
  \<^verbatim>\<open>user.role === 'operator' ? '/operator' : '/'\<close> that \<^verbatim>\<open>PublicRoute\<close> and the login
  form's \<^verbatim>\<open>onSubmit\<close> both evaluate.
\<close>

definition role_home :: "string \<Rightarrow> string" where
  "role_home r = (if r = ''operator'' then ''/operator'' else ''/'')"

text \<open>\<^verbatim>\<open>PublicRoute\<close> of \<^verbatim>\<open>components/ProtectedRoute.tsx\<close>.\<close>

definition PublicRoute :: "auth \<Rightarrow> 'c \<Rightarrow> 'c element" where
  "PublicRoute a children =
     (if auth_loading a then Spinner
      else case auth_user a of
        Some u \<Rightarrow> Navigate (role_home (user_role u))
      | None \<Rightarrow> Children children)"

section \<open>Failures and notifications\<close>

text \<open>
  A rejected call, as the handlers read it: \<^verbatim>\<open>error.response?.data?.message\<close> is either a
  string or undefined.
\<close>

record api_error =
  err_message :: "string option"

text \<open>
  \<^verbatim>\<open>value || fallback\<close> on an optional string: the fallback is taken when the value is
  undefined and also when it is the empty string.
\<close>

definition or_default :: "string option \<Rightarrow> string \<Rightarrow> string" where
  "or_default v fallback =
     (case v of
        None \<Rightarrow> fallback
      | Some m \<Rightarrow> if m = [] then fallback else m)"

text \<open>\<^verbatim>\<open>error.response?.data?.message || fallback\<close>.\<close>

definition message_or :: "api_error \<Rightarrow> string \<Rightarrow> string" where
  "message_or e fallback = or_default (err_message e) fallback"

datatype severity = Success | Error

record snackbar =
  snackbar_open :: bool
  snackbar_message :: string
  snackbar_severity :: severity

text \<open>
  The calls a handler issues through the API client are recorded, in order, in a log
  carried next to the component state: method and path, with the path parameter.
\<close>

datatype api_call =
    POST_auth_login string string
  | POST_favorites int
  | DELETE_favorites int
  | POST_bookings_cancel int
  | POST_bookings_confirm int
  | POST_bookings_complete int
  | GET_bookings_operator
  | POST_bookings "int option"
  | GET_hotels string

section \<open>Login form\<close>

text \<open>
  The state the login form's \<^verbatim>\<open>onSubmit\<close> writes: its error text, the session handed to
  \<^verbatim>\<open>login(user, token)\<close>, the route passed to \<^verbatim>\<open>navigate\<close>, and the calls issued.
\<close>

record login_state =
  login_error :: string
  login_session :: "(user \<times> string) option"
  login_nav :: "string option"
  login_calls :: "api_call list"

text \<open>
  Modelled from the spec: \<^verbatim>\<open>login(user, token)\<close> of the authentication context
  (\<^verbatim>\<open>contexts/AuthContext\<close> is not among the sources); it replaces the current session.
\<close>

definition login :: "user \<Rightarrow> string \<Rightarrow> login_state \<Rightarrow> login_state" where
  "login u token st = st\<lparr>login_session := Some (u, token)\<rparr>"

text \<open>
  \<^verbatim>\<open>onSubmit\<close> of \<^verbatim>\<open>pages/Login.tsx\<close>. The outcome of \<^verbatim>\<open>api.post('/auth/login', ...)\<close> is a
  parameter: \<open>Inl\<close> a rejection, \<open>Inr\<close> the \<^verbatim>\<open>{ token, user }\<close> of \<^verbatim>\<open>res.data\<close>.
\<close>

definition login_onSubmit ::
  "string \<Rightarrow> string \<Rightarrow> api_error + (string \<times> user) \<Rightarrow> login_state \<Rightarrow> login_state" where
  "login_onSubmit email password res st =
     (let st1 = st\<lparr>login_error := '''',
                    login_calls := login_calls st @ [POST_auth_login email password]\<rparr>
      in case res of
           Inr (token, u) \<Rightarrow>
             (login u token st1)\<lparr>login_nav := Some (role_home (user_role u))\<rparr>
         | Inl err \<Rightarrow>
             st1\<lparr>login_error :=
                   message_or err ''Login failed, incorrect username or password''\<rparr>)"

section \<open>API client\<close>

text \<open>
  The part of an axios request configuration that the client touches: the target and the
  optional header object (\<^verbatim>\<open>config.headers\<close> may be undefined).
\<close>

record request_config =
  url :: string
  headers :: "(string \<rightharpoonup> string) option"

text \<open>
  The request interceptor of \<^verbatim>\<open>utils/api\<close>. Its first argument is what
  \<^verbatim>\<open>localStorage.getItem('token')\<close> returns: \<open>None\<close> for null, otherwise the stored
  string. \<^verbatim>\<open>if (token)\<close> holds for a non-empty string only;
  \<^verbatim>\<open>config.headers || {}\<close> keeps an existing header object.
\<close>

definition request_interceptor :: "string option \<Rightarrow> request_config \<Rightarrow> request_config" where
  "request_interceptor token config =
     (case token of
        None \<Rightarrow> config
      | Some t \<Rightarrow>
          if t \<noteq> [] then
            config\<lparr>headers :=
              Some ((case headers config of None \<Rightarrow> Map.empty | Some h \<Rightarrow> h)
                    (''Authorization'' \<mapsto> ''Bearer '' @ t))\<rparr>
          else config)"

text \<open>
  The response interceptors: \<^verbatim>\<open>(response) => response\<close> and
  \<^verbatim>\<open>(error) => Promise.reject(error)\<close>. A settled promise is a sum, \<open>Inl\<close> the
  rejection and \<open>Inr\<close> the value.
\<close>

definition response_fulfilled :: "'r \<Rightarrow> 'r" where
  "response_fulfilled response = response"

definition response_rejected :: "'e \<Rightarrow> 'e + 'r" where
  "response_rejected error = Inl error"

text \<open>
  One call through the client, in the order axios runs its chain: the request
  interceptor, the transport once, then the response interceptor that matches the
  outcome. The result is paired with the requests handed to the transport.
\<close>

definition api_request ::
  "string option \<Rightarrow> (request_config \<Rightarrow> 'e + 'r) \<Rightarrow> request_config
     \<Rightarrow> request_config list \<times> ('e + 'r)" where
  "api_request token transport config =
     (let sent = request_interceptor token config
      in ([sent],
          case transport sent of
            Inl error \<Rightarrow> response_rejected error
          | Inr response \<Rightarrow> Inr (response_fulfilled response)))"



section \<open>Home page: favorites\<close>

text \<open>
  The state of \<^verbatim>\<open>Home\<close> that the favorites toggle reads and writes:
  \<^verbatim>\<open>favorites: number[]\<close> and the snackbar, with the log of calls issued.
\<close>

record home_state =
  home_favorites :: "int list"
  home_snackbar :: snackbar
  home_calls :: "api_call list"

text \<open>
  \<^verbatim>\<open>handleToggleFavorite\<close> is an async function: it runs up to its \<^verbatim>\<open>await\<close> when the
  button is pressed and resumes when the call settles. What it has awaiting is the call
  it issued together with the \<^verbatim>\<open>favorites\<close> array of the render that created the
  handler, which is the array it later writes from.
\<close>

datatype toggle_pending = Awaiting_Delete int "int list" | Awaiting_Post int "int list"

text \<open>
  The part of \<^verbatim>\<open>handleToggleFavorite\<close> before the \<^verbatim>\<open>await\<close>: the session check, the
  membership test on the rendered \<^verbatim>\<open>favorites\<close>, and the call. \<open>usr\<close> is the session's
  user.
\<close>

definition handleToggleFavorite_press ::
  "user option \<Rightarrow> int \<Rightarrow> home_state \<Rightarrow> home_state \<times> toggle_pending option" where
  "handleToggleFavorite_press usr hotelId st =
     (case usr of
        None \<Rightarrow>
          (st\<lparr>home_snackbar :=
                \<lparr>snackbar_open = True, snackbar_message = ''Please login first'',
                 snackbar_severity = Error\<rparr>\<rparr>,
           None)
      | Some _ \<Rightarrow>
          if hotelId \<in> set (home_favorites st) then
            (st\<lparr>home_calls := home_calls st @ [DELETE_favorites hotelId]\<rparr>,
             Some (Awaiting_Delete hotelId (home_favorites st)))
          else
            (st\<lparr>home_calls := home_calls st @ [POST_favorites hotelId]\<rparr>,
             Some (Awaiting_Post hotelId (home_favorites st))))"

text \<open>
  The part after the \<^verbatim>\<open>await\<close>, run on the state as it is when the call settles with
  outcome \<open>res\<close>: \<^verbatim>\<open>setFavorites\<close> is given a list computed from the captured array.
\<close>

fun handleToggleFavorite_settle ::
  "toggle_pending \<Rightarrow> api_error + unit \<Rightarrow> home_state \<Rightarrow> home_state" where
  "handleToggleFavorite_settle (Awaiting_Delete hotelId favorites) (Inr _) st =
     st\<lparr>home_favorites := filter (\<lambda>i. i \<noteq> hotelId) favorites,
        home_snackbar :=
          \<lparr>snackbar_open = True, snackbar_message = ''Removed from favorites'',
           snackbar_severity = Success\<rparr>\<rparr>"
| "handleToggleFavorite_settle (Awaiting_Post hotelId favorites) (Inr _) st =
     st\<lparr>home_favorites := favorites @ [hotelId],
        home_snackbar :=
          \<lparr>snackbar_open = True, snackbar_message = ''Added to favorites'',
           snackbar_severity = Success\<rparr>\<rparr>"
| "handleToggleFavorite_settle _ (Inl e) st =
     st\<lparr>home_snackbar :=
          \<lparr>snackbar_open = True, snackbar_message = message_or e ''Operation failed'',
           snackbar_severity = Error\<rparr>\<rparr>"

text \<open>
  One invocation of \<^verbatim>\<open>handleToggleFavorite\<close> from press to completion with nothing in
  between; \<open>res\<close> is the outcome of the one call it awaits.
\<close>

definition handleToggleFavorite ::
  "user option \<Rightarrow> api_error + unit \<Rightarrow> int \<Rightarrow> home_state \<Rightarrow> home_state" where
  "handleToggleFavorite usr res hotelId st =
     (case handleToggleFavorite_press usr hotelId st of
        (st1, None) \<Rightarrow> st1
      | (st1, Some pending) \<Rightarrow> handleToggleFavorite_settle pending res st1)"

text \<open>
  Two presses on the same hotel made before the first call has settled: both handlers
  come from the same render, so the second press reads the state the first press left,
  whose \<^verbatim>\<open>favorites\<close> is still the rendered one. The calls then settle in the order
  issued, with outcomes \<open>res1\<close> and \<open>res2\<close>.
\<close>

definition toggle_twice_overlapping ::
  "user option \<Rightarrow> api_error + unit \<Rightarrow> api_error + unit \<Rightarrow> int \<Rightarrow> home_state \<Rightarrow> home_state" where
  "toggle_twice_overlapping usr res1 res2 hotelId st =
     (case handleToggleFavorite_press usr hotelId st of
        (st1, pending1) \<Rightarrow>
          (case handleToggleFavorite_press usr hotelId st1 of
             (st2, pending2) \<Rightarrow>
               (let st3 = (case pending1 of
                             None \<Rightarrow> st2
                           | Some p \<Rightarrow> handleToggleFavorite_settle p res1 st2)
                in case pending2 of
                     None \<Rightarrow> st3
                   | Some p \<Rightarrow> handleToggleFavorite_settle p res2 st3)))"

section \<open>Bookings in the user centre and the operator dashboard\<close>

text \<open>
  \<^verbatim>\<open>interface Booking\<close> of the user centre; the operator dashboard's interface adds
  \<^verbatim>\<open>userEmail\<close>.
\<close>

record booking =
  booking_id :: int
  hotelName :: string
  hotelAddress :: string
  checkInDate :: string
  checkOutDate :: string
  guestCount :: int
  totalPrice :: real
  status :: string
  specialRequests :: "string option"
  createdAt :: string

record operator_booking = booking +
  userEmail :: string

record user_center_state =
  uc_bookings :: "booking list"
  uc_snackbar :: snackbar
  uc_calls :: "api_call list"

text \<open>\<^verbatim>\<open>handleCancelBooking\<close> of \<^verbatim>\<open>pages/UserCenter.tsx\<close>; \<open>res\<close> is the outcome of the POST.\<close>

definition handleCancelBooking ::
  "api_error + unit \<Rightarrow> int \<Rightarrow> user_center_state \<Rightarrow> user_center_state" where
  "handleCancelBooking res bookingId st =
     (let st1 = st\<lparr>uc_calls := uc_calls st @ [POST_bookings_cancel bookingId]\<rparr>
      in case res of
           Inr _ \<Rightarrow>
             st1\<lparr>uc_bookings :=
                   map (\<lambda>b. if booking_id b = bookingId then b\<lparr>status := ''cancelled''\<rparr> else b)
                     (uc_bookings st),
                 uc_snackbar :=
                   \<lparr>snackbar_open = True, snackbar_message = ''Booking cancelled'',
                    snackbar_severity = Success\<rparr>\<rparr>
         | Inl e \<Rightarrow>
             st1\<lparr>uc_snackbar :=
                   \<lparr>snackbar_open = True, snackbar_message = message_or e ''Cancel failed'',
                    snackbar_severity = Error\<rparr>\<rparr>)"

record operator_state =
  od_bookings :: "operator_booking list"
  od_snackbar :: snackbar
  od_calls :: "api_call list"

text \<open>
  \<^verbatim>\<open>fetchBookings\<close> of the operator dashboard: the list is replaced by the response data;
  a failure is only written to the console.
\<close>

definition fetchBookings ::
  "api_error + operator_booking list \<Rightarrow> operator_state \<Rightarrow> operator_state" where
  "fetchBookings res st =
     (let st1 = st\<lparr>od_calls := od_calls st @ [GET_bookings_operator]\<rparr>
      in case res of
           Inr data \<Rightarrow> st1\<lparr>od_bookings := data\<rparr>
         | Inl _ \<Rightarrow> st1)"

text \<open>
  \<^verbatim>\<open>handleConfirmBooking\<close> and \<^verbatim>\<open>handleCompleteBooking\<close>: \<open>res\<close> is the outcome of the
  mutating POST, \<open>refetched\<close> the outcome of the \<^verbatim>\<open>fetchBookings()\<close> that follows a success.
\<close>

definition handleConfirmBooking ::
  "api_error + unit \<Rightarrow> api_error + operator_booking list \<Rightarrow> int
     \<Rightarrow> operator_state \<Rightarrow> operator_state" where
  "handleConfirmBooking res refetched bookingId st =
     (let st1 = st\<lparr>od_calls := od_calls st @ [POST_bookings_confirm bookingId]\<rparr>
      in case res of
           Inr _ \<Rightarrow>
             fetchBookings refetched
               (st1\<lparr>od_snackbar :=
                      \<lparr>snackbar_open = True, snackbar_message = ''Booking confirmed'',
                       snackbar_severity = Success\<rparr>\<rparr>)
         | Inl e \<Rightarrow>
             st1\<lparr>od_snackbar :=
                   \<lparr>snackbar_open = True, snackbar_message = message_or e ''Confirm failed'',
                    snackbar_severity = Error\<rparr>\<rparr>)"

definition handleCompleteBooking ::
  "api_error + unit \<Rightarrow> api_error + operator_booking list \<Rightarrow> int
     \<Rightarrow> operator_state \<Rightarrow> operator_state" where
  "handleCompleteBooking res refetched bookingId st =
     (let st1 = st\<lparr>od_calls := od_calls st @ [POST_bookings_complete bookingId]\<rparr>
      in case res of
           Inr _ \<Rightarrow>
             fetchBookings refetched
               (st1\<lparr>od_snackbar :=
                      \<lparr>snackbar_open = True, snackbar_message = ''Booking completed'',
                       snackbar_severity = Success\<rparr>\<rparr>)
         | Inl e \<Rightarrow>
             st1\<lparr>od_snackbar :=
                   \<lparr>snackbar_open = True, snackbar_message = message_or e ''Complete failed'',
                    snackbar_severity = Error\<rparr>\<rparr>)"

text \<open>
  The buttons a booking card renders, each with the handler call its \<^verbatim>\<open>onClick\<close> makes:
  \<^verbatim>\<open>handleCancelBooking(booking.id)\<close> in the user centre,
  \<^verbatim>\<open>handleConfirmBooking(booking.id)\<close> and \<^verbatim>\<open>handleCompleteBooking(booking.id)\<close> in the
  operator dashboard.
\<close>

datatype booking_action = Cancel_Booking int | Confirm_Booking int | Complete_Booking int

text \<open>The action area of a booking card in \<^verbatim>\<open>pages/UserCenter.tsx\<close>.\<close>

definition user_booking_actions :: "booking \<Rightarrow> booking_action list" where
  "user_booking_actions b =
     (if status b = ''pending'' then [Cancel_Booking (booking_id b)] else [])"

text \<open>The action area of a booking card in the operator dashboard.\<close>

definition operator_booking_actions :: "operator_booking \<Rightarrow> booking_action list" where
  "operator_booking_actions b =
     (if status b = ''pending'' then [Confirm_Booking (booking_id b)] else []) @
     (if status b = ''confirmed'' then [Complete_Booking (booking_id b)] else [])"

section \<open>Hotels: dashboard cards and the detail page\<close>

text \<open>\<^verbatim>\<open>interface Hotel\<close> of the operator dashboard and of the detail page.\<close>

record hotel =
  hotel_id :: int
  hotel_name :: string
  hotel_address :: string
  description :: "string option"
  price :: real
  availableRooms :: int
  operatorId :: int

text \<open>
  A rendered button: its \<^verbatim>\<open>disabled\<close> attribute and the handler bound to \<^verbatim>\<open>onClick\<close>
  (\<open>None\<close> for undefined).
\<close>

record 'h button =
  disabled :: bool
  onClick :: "'h option"

text \<open>
  What pressing a button runs: a disabled button dispatches no click, an enabled one
  runs its handler if it has one.
\<close>

definition click :: "'h button \<Rightarrow> 'h option" where
  "click b = (if disabled b then None else onClick b)"

text \<open>
  The handler calls bound in a hotel card of the operator dashboard:
  \<^verbatim>\<open>handleOpenDialog(hotel)\<close> and \<^verbatim>\<open>handleDeleteHotel(hotel.id)\<close>.
\<close>

datatype dashboard_handler = Open_Dialog hotel | Delete_Hotel int

text \<open>
  The test the card repeats for each attribute: \<^verbatim>\<open>user && hotel.operatorId === user.id\<close>.
\<close>

definition is_mine :: "user option \<Rightarrow> hotel \<Rightarrow> bool" where
  "is_mine usr h = (case usr of None \<Rightarrow> False | Some u \<Rightarrow> operatorId h = user_id u)"

text \<open>
  The edit button: \<^verbatim>\<open>onClick\<close> is bound only for an owned hotel, \<^verbatim>\<open>disabled\<close> is the
  negated test.
\<close>

definition edit_button :: "user option \<Rightarrow> hotel \<Rightarrow> dashboard_handler button" where
  "edit_button usr h =
     \<lparr>disabled = (\<not> is_mine usr h),
      onClick = (if is_mine usr h then Some (Open_Dialog h) else None)\<rparr>"

text \<open>The delete button: \<^verbatim>\<open>onClick\<close> is always bound, \<^verbatim>\<open>disabled\<close> is the negated test.\<close>

definition delete_button :: "user option \<Rightarrow> hotel \<Rightarrow> dashboard_handler button" where
  "delete_button usr h =
     \<lparr>disabled = (\<not> is_mine usr h),
      onClick = Some (Delete_Hotel (hotel_id h))\<rparr>"

















section \<open>Route guard properties\<close>

text \<open>
  C1 (as amended). The authenticated-only guard is a four-state machine over
  (loading, session, requiredRole): while loading it returns the progress indicator and
  no redirect; resolved with no session it redirects to \<^verbatim>\<open>/login\<close>; resolved with a
  session whose role differs from a required role it redirects to the home route \<^verbatim>\<open>/\<close>,
  whichever role is required; otherwise it returns its children. In particular a
  session whose role is not \<^verbatim>\<open>operator\<close> never gets the children of the operator-only
  route.
\<close>

theorem ProtectedRoute_four_states:
  "(auth_loading a \<longrightarrow> ProtectedRoute a rr c = Spinner) \<and>
   (\<not> auth_loading a \<and> auth_user a = None \<longrightarrow> ProtectedRoute a rr c = Navigate ''/login'') \<and>
   (\<not> auth_loading a \<and> auth_user a = Some u \<and> rr = Some r \<and> user_role u \<noteq> role_name r
      \<longrightarrow> ProtectedRoute a rr c = Navigate ''/'') \<and>
   (\<not> auth_loading a \<and> auth_user a = Some u \<and>
      (rr = None \<or> rr = Some r \<and> user_role u = role_name r)
      \<longrightarrow> ProtectedRoute a rr c = Children c) \<and>
   (auth_user a = Some u \<and> user_role u \<noteq> ''operator''
      \<longrightarrow> ProtectedRoute a (Some Operator) c \<noteq> Children c)"
proof -
  have mismatch: "ProtectedRoute a (Some r) c = Navigate ''/''"
    if "\<not> auth_loading a" "auth_user a = Some u" "user_role u \<noteq> role_name r"
    using that by (cases r) (simp_all add: ProtectedRoute_def)
  have allow: "ProtectedRoute a rr c = Children c"
    if "\<not> auth_loading a" "auth_user a = Some u"
       "rr = None \<or> rr = Some r \<and> user_role u = role_name r"
    using that by (auto simp: ProtectedRoute_def)
  have operator_only: "ProtectedRoute a (Some Operator) c \<noteq> Children c"
    if "auth_user a = Some u" "user_role u \<noteq> ''operator''"
    using that by (simp add: ProtectedRoute_def)
  show ?thesis
    using mismatch allow operator_only by (simp add: ProtectedRoute_def)
qed

theorem ProtectedRoute_four_states_witness:
  "ProtectedRoute \<lparr>auth_user = None, auth_loading = True\<rparr> (Some Operator) () = Spinner \<and>
   ProtectedRoute \<lparr>auth_user = None, auth_loading = False\<rparr> (Some Operator) ()
     = Navigate ''/login'' \<and>
   ProtectedRoute
     \<lparr>auth_user = Some \<lparr>user_id = 1, user_email = ''a@b.com'', user_role = ''user''\<rparr>,
      auth_loading = False\<rparr> (Some Operator) () = Navigate ''/'' \<and>
   ProtectedRoute
     \<lparr>auth_user = Some \<lparr>user_id = 2, user_email = ''op@b.com'', user_role = ''operator''\<rparr>,
      auth_loading = False\<rparr> (Some Operator) () = Children () \<and>
   ProtectedRoute
     \<lparr>auth_user = Some \<lparr>user_id = 1, user_email = ''a@b.com'', user_role = ''user''\<rparr>,
      auth_loading = False\<rparr> (Some Operator) () \<noteq> Children ()"
  using
    ProtectedRoute_four_states
      [of "\<lparr>auth_user = None, auth_loading = True\<rparr>" "Some Operator" "()"]
    ProtectedRoute_four_states
      [of "\<lparr>auth_user = None, auth_loading = False\<rparr>" "Some Operator" "()"]
    ProtectedRoute_four_states
      [of "\<lparr>auth_user = Some \<lparr>user_id = 1, user_email = ''a@b.com'', user_role = ''user''\<rparr>,
            auth_loading = False\<rparr>"
          "Some Operator" "()"
          "\<lparr>user_id = 1, user_email = ''a@b.com'', user_role = ''user''\<rparr>"
          Operator]
    ProtectedRoute_four_states
      [of "\<lparr>auth_user = Some \<lparr>user_id = 2, user_email = ''op@b.com'', user_role = ''operator''\<rparr>,
            auth_loading = False\<rparr>"
          "Some Operator" "()"
          "\<lparr>user_id = 2, user_email = ''op@b.com'', user_role = ''operator''\<rparr>"
          Operator]
  by simp

text \<open>
  C1 as the spec words it fails: the redirect on a role mismatch is not the role's home
  view. A \<^verbatim>\<open>user\<close> session on the operator-only route is not sent to the operator's home
  \<^verbatim>\<open>/operator\<close>, and an \<^verbatim>\<open>operator\<close> session on a route that requires \<^verbatim>\<open>user\<close> is not sent
  to its own home \<^verbatim>\<open>/operator\<close> either: both go to \<^verbatim>\<open>/\<close>.
\<close>

theorem ProtectedRoute_role_home_counterexample:
  "ProtectedRoute
     \<lparr>auth_user = Some \<lparr>user_id = 1, user_email = ''a@b.com'', user_role = ''user''\<rparr>,
      auth_loading = False\<rparr> (Some Operator) () \<noteq> Navigate (role_home (role_name Operator)) \<and>
   ProtectedRoute
     \<lparr>auth_user = Some \<lparr>user_id = 2, user_email = ''op@b.com'', user_role = ''operator''\<rparr>,
      auth_loading = False\<rparr> (Some User) () \<noteq> Navigate (role_home ''operator'')"
  by (simp add: ProtectedRoute_def role_home_def)

text \<open>
  C2. Once the session has resolved, the guest-only gate sends every authenticated
  session to the role-based home (\<^verbatim>\<open>/operator\<close> for role \<^verbatim>\<open>operator\<close>, \<^verbatim>\<open>/\<close> for any other
  role); it returns its children only when no session is present, and does so for every
  resolved input without a session. After a successful login the form navigates to the
  same role-based home.
\<close>

theorem PublicRoute_role_home_and_login_nav:
  "(\<not> auth_loading a \<and> auth_user a = Some u \<longrightarrow>
      PublicRoute a c = Navigate (if user_role u = ''operator'' then ''/operator'' else ''/'')) \<and>
   (PublicRoute a c = Children c \<longrightarrow> auth_user a = None) \<and>
   (\<not> auth_loading a \<and> auth_user a = None \<longrightarrow> PublicRoute a c = Children c) \<and>
   login_nav (login_onSubmit email password (Inr (token, u')) st)
     = Some (if user_role u' = ''operator'' then ''/operator'' else ''/'')"
proof -
  have gate: "PublicRoute a c = Children c \<longrightarrow> auth_user a = None"
    by (auto simp: PublicRoute_def split: if_splits option.splits)
  have nav: "login_nav (login_onSubmit email password (Inr (token, u')) st)
     = Some (if user_role u' = ''operator'' then ''/operator'' else ''/'')"
    by (simp add: login_onSubmit_def login_def role_home_def Let_def)
  show ?thesis
    using gate nav by (simp add: PublicRoute_def role_home_def)
qed

theorem PublicRoute_role_home_and_login_nav_witness:
  "PublicRoute
     \<lparr>auth_user = Some \<lparr>user_id = 2, user_email = ''op@b.com'', user_role = ''operator''\<rparr>,
      auth_loading = False\<rparr> () = Navigate ''/operator'' \<and>
   PublicRoute
     \<lparr>auth_user = Some \<lparr>user_id = 1, user_email = ''a@b.com'', user_role = ''user''\<rparr>,
      auth_loading = False\<rparr> () = Navigate ''/'' \<and>
   PublicRoute \<lparr>auth_user = None, auth_loading = False\<rparr> () = Children () \<and>
   login_nav
     (login_onSubmit ''a@b.com'' ''secret''
        (Inr (''t1'', \<lparr>user_id = 1, user_email = ''a@b.com'', user_role = ''user''\<rparr>))
        \<lparr>login_error = '''', login_session = None, login_nav = None, login_calls = []\<rparr>)
     = Some ''/''"
  using
    PublicRoute_role_home_and_login_nav
      [of "\<lparr>auth_user = Some \<lparr>user_id = 2, user_email = ''op@b.com'', user_role = ''operator''\<rparr>,
            auth_loading = False\<rparr>"
          "\<lparr>user_id = 2, user_email = ''op@b.com'', user_role = ''operator''\<rparr>" "()"]
    PublicRoute_role_home_and_login_nav
      [of "\<lparr>auth_user = Some \<lparr>user_id = 1, user_email = ''a@b.com'', user_role = ''user''\<rparr>,
            auth_loading = False\<rparr>"
          "\<lparr>user_id = 1, user_email = ''a@b.com'', user_role = ''user''\<rparr>" "()"
          "''a@b.com''" "''secret''" "''t1''"
          "\<lparr>user_id = 1, user_email = ''a@b.com'', user_role = ''user''\<rparr>"
          "\<lparr>login_error = '''', login_session = None, login_nav = None, login_calls = []\<rparr>"]
    PublicRoute_role_home_and_login_nav
      [of "\<lparr>auth_user = None, auth_loading = False\<rparr>" _ "()"]
  by simp

section \<open>API client properties\<close>



text \<open>
  C4. The response-error handler is the identity on failures: the error it is given is
  the error it rejects with. Through the client, a call whose transport fails with an
  error rejects with exactly that error, after the transport was invoked once.
\<close>

theorem response_rejected_passes_error_through:
  "(response_rejected e :: 'e + 'r) = Inl e \<and>
   ((transport :: request_config \<Rightarrow> 'e + 'r) (request_interceptor token config) = Inl e \<longrightarrow>
      api_request token transport config = ([request_interceptor token config], Inl e))"
  by (simp add: response_rejected_def api_request_def Let_def)

theorem response_rejected_passes_error_through_witness:
  "api_request None (\<lambda>c. Inl \<lparr>err_message = Some ''No rooms left''\<rparr> :: api_error + unit)
     \<lparr>url = ''/bookings'', headers = None\<rparr>
   = ([\<lparr>url = ''/bookings'', headers = None\<rparr>], Inl \<lparr>err_message = Some ''No rooms left''\<rparr>)"
  using
    response_rejected_passes_error_through
      [of "\<lparr>err_message = Some ''No rooms left''\<rparr>"
          "\<lambda>c. Inl \<lparr>err_message = Some ''No rooms left''\<rparr> :: api_error + unit"
          None "\<lparr>url = ''/bookings'', headers = None\<rparr>"]
  by (simp add: request_interceptor_def)

section \<open>Favorites toggle properties\<close>

lemma handleToggleFavorite_success:
  "home_favorites (handleToggleFavorite (Some u) (Inr x) hotelId st) =
     (if hotelId \<in> set (home_favorites st)
      then filter (\<lambda>i. i \<noteq> hotelId) (home_favorites st)
      else home_favorites st @ [hotelId])"
  by (simp add: handleToggleFavorite_def handleToggleFavorite_press_def)

text \<open>
  C5. With no active session the favorites toggle only shows the notice
  ``Please login first'': it issues no call and leaves the local favorites as they were,
  whatever the hotel id and whatever a call would have returned.
\<close>

theorem handleToggleFavorite_no_session:
  "handleToggleFavorite None res hotelId st =
     st\<lparr>home_snackbar :=
          \<lparr>snackbar_open = True, snackbar_message = ''Please login first'',
           snackbar_severity = Error\<rparr>\<rparr> \<and>
   home_calls (handleToggleFavorite None res hotelId st) = home_calls st \<and>
   home_favorites (handleToggleFavorite None res hotelId st) = home_favorites st"
  by (simp add: handleToggleFavorite_def handleToggleFavorite_press_def)

text \<open>
  C6 (as amended). With an active session and both calls succeeding, toggling the same
  hotel id twice, the second toggle pressed after the first has completed and its result
  is rendered, gives back the original membership of the local favorites. If the id was
  absent the first toggle adds it and the second removes it (the list is then the
  original one); if it was present the first toggle removes it and the second adds it
  again.
\<close>

theorem handleToggleFavorite_twice:
  "set (home_favorites
          (handleToggleFavorite (Some u) (Inr ()) hotelId
             (handleToggleFavorite (Some u) (Inr ()) hotelId st)))
     = set (home_favorites st) \<and>
   (hotelId \<notin> set (home_favorites st) \<longrightarrow>
      hotelId \<in> set (home_favorites (handleToggleFavorite (Some u) (Inr ()) hotelId st)) \<and>
      home_favorites
        (handleToggleFavorite (Some u) (Inr ()) hotelId
           (handleToggleFavorite (Some u) (Inr ()) hotelId st))
        = home_favorites st) \<and>
   (hotelId \<in> set (home_favorites st) \<longrightarrow>
      hotelId \<notin> set (home_favorites (handleToggleFavorite (Some u) (Inr ()) hotelId st)) \<and>
      hotelId \<in> set (home_favorites
          (handleToggleFavorite (Some u) (Inr ()) hotelId
             (handleToggleFavorite (Some u) (Inr ()) hotelId st))))"
proof (cases "hotelId \<in> set (home_favorites st)")
  case True
  have first: "home_favorites (handleToggleFavorite (Some u) (Inr ()) hotelId st)
      = filter (\<lambda>i. i \<noteq> hotelId) (home_favorites st)"
    using True by (simp add: handleToggleFavorite_success)
  then have absent: "hotelId \<notin> set (home_favorites (handleToggleFavorite (Some u) (Inr ()) hotelId st))"
    by simp
  have second: "home_favorites
        (handleToggleFavorite (Some u) (Inr ()) hotelId
           (handleToggleFavorite (Some u) (Inr ()) hotelId st))
      = filter (\<lambda>i. i \<noteq> hotelId) (home_favorites st) @ [hotelId]"
    using absent first
    by (simp add: handleToggleFavorite_success
          [of _ _ _ "handleToggleFavorite (Some u) (Inr ()) hotelId st"])
  show ?thesis
    using True absent unfolding second by auto
next
  case False
  have first: "home_favorites (handleToggleFavorite (Some u) (Inr ()) hotelId st)
      = home_favorites st @ [hotelId]"
    using False by (simp add: handleToggleFavorite_success)
  then have present: "hotelId \<in> set (home_favorites (handleToggleFavorite (Some u) (Inr ()) hotelId st))"
    by simp
  have "filter (\<lambda>i. i \<noteq> hotelId) (home_favorites st) = home_favorites st"
    using False by (auto simp: filter_id_conv)
  then have second: "home_favorites
        (handleToggleFavorite (Some u) (Inr ()) hotelId
           (handleToggleFavorite (Some u) (Inr ()) hotelId st))
      = home_favorites st"
    using present first
    by (simp add: handleToggleFavorite_success
          [of _ _ _ "handleToggleFavorite (Some u) (Inr ()) hotelId st"])
  show ?thesis
    using False present unfolding second by simp
qed

theorem handleToggleFavorite_twice_witness:
  "home_favorites
     (handleToggleFavorite (Some \<lparr>user_id = 1, user_email = ''a@b.com'', user_role = ''user''\<rparr>)
        (Inr ()) 7
        (handleToggleFavorite (Some \<lparr>user_id = 1, user_email = ''a@b.com'', user_role = ''user''\<rparr>)
           (Inr ()) 7
           \<lparr>home_favorites = [3, 5],
            home_snackbar = \<lparr>snackbar_open = False, snackbar_message = '''',
                             snackbar_severity = Success\<rparr>,
            home_calls = []\<rparr>))
     = [3, 5] \<and>
   7 \<in> set (home_favorites
     (handleToggleFavorite (Some \<lparr>user_id = 1, user_email = ''a@b.com'', user_role = ''user''\<rparr>)
        (Inr ()) 7
        (handleToggleFavorite (Some \<lparr>user_id = 1, user_email = ''a@b.com'', user_role = ''user''\<rparr>)
           (Inr ()) 7
           \<lparr>home_favorites = [3, 7, 5],
            home_snackbar = \<lparr>snackbar_open = False, snackbar_message = '''',
                             snackbar_severity = Success\<rparr>,
            home_calls = []\<rparr>)))"
  using
    handleToggleFavorite_twice
      [of "\<lparr>user_id = 1, user_email = ''a@b.com'', user_role = ''user''\<rparr>" 7
          "\<lparr>home_favorites = [3, 5],
            home_snackbar = \<lparr>snackbar_open = False, snackbar_message = '''',
                             snackbar_severity = Success\<rparr>,
            home_calls = []\<rparr>"]
    handleToggleFavorite_twice
      [of "\<lparr>user_id = 1, user_email = ''a@b.com'', user_role = ''user''\<rparr>" 7
          "\<lparr>home_favorites = [3, 7, 5],
            home_snackbar = \<lparr>snackbar_open = False, snackbar_message = '''',
                             snackbar_severity = Success\<rparr>,
            home_calls = []\<rparr>"]
  by simp

text \<open>
  C6 as the spec words it fails. With favorites 3 and 5 rendered, two presses on hotel 7
  made before the first call has settled both find 7 absent and both issue the creating
  call; both calls succeed, and each handler writes the rendered list with 7 appended.
  After the two toggles 7 is in the local favorites, which is not the original
  membership.
\<close>

theorem toggle_twice_overlapping_counterexample:
  "(7::int) \<notin> set [3, 5] \<and>
   home_calls
     (toggle_twice_overlapping
        (Some \<lparr>user_id = 1, user_email = ''a@b.com'', user_role = ''user''\<rparr>) (Inr ()) (Inr ()) 7
        \<lparr>home_favorites = [3, 5],
         home_snackbar = \<lparr>snackbar_open = False, snackbar_message = '''',
                          snackbar_severity = Success\<rparr>,
         home_calls = []\<rparr>)
     = [POST_favorites 7, POST_favorites 7] \<and>
   home_favorites
     (toggle_twice_overlapping
        (Some \<lparr>user_id = 1, user_email = ''a@b.com'', user_role = ''user''\<rparr>) (Inr ()) (Inr ()) 7
        \<lparr>home_favorites = [3, 5],
         home_snackbar = \<lparr>snackbar_open = False, snackbar_message = '''',
                          snackbar_severity = Success\<rparr>,
         home_calls = []\<rparr>)
     = [3, 5, 7] \<and>
   7 \<in> set (home_favorites
     (toggle_twice_overlapping
        (Some \<lparr>user_id = 1, user_email = ''a@b.com'', user_role = ''user''\<rparr>) (Inr ()) (Inr ()) 7
        \<lparr>home_favorites = [3, 5],
         home_snackbar = \<lparr>snackbar_open = False, snackbar_message = '''',
                          snackbar_severity = Success\<rparr>,
         home_calls = []\<rparr>))"
  by (simp add: toggle_twice_overlapping_def handleToggleFavorite_press_def)

section \<open>Booking lifecycle properties\<close>

lemma handleCancelBooking_success:
  "uc_bookings (handleCancelBooking (Inr x) bookingId st) =
     map (\<lambda>b. if booking_id b = bookingId then b\<lparr>status := ''cancelled''\<rparr> else b)
       (uc_bookings st)"
  by (simp add: handleCancelBooking_def Let_def)

lemma handleCancelBooking_failure:
  "uc_bookings (handleCancelBooking (Inl e) bookingId st) = uc_bookings st"
  by (simp add: handleCancelBooking_def Let_def)

lemma handleConfirmBooking_cases:
  "od_bookings (handleConfirmBooking (Inl e) refetched bookingId st) = od_bookings st"
  "od_calls (handleConfirmBooking (Inl e) refetched bookingId st)
     = od_calls st @ [POST_bookings_confirm bookingId]"
  "od_bookings (handleConfirmBooking (Inr x) (Inr data) bookingId st) = data"
  "od_bookings (handleConfirmBooking (Inr x) (Inl e') bookingId st) = od_bookings st"
  "od_calls (handleConfirmBooking (Inr x) refetched bookingId st)
     = od_calls st @ [POST_bookings_confirm bookingId, GET_bookings_operator]"
  by (simp_all add: handleConfirmBooking_def fetchBookings_def Let_def split: sum.splits)

lemma handleCompleteBooking_cases:
  "od_bookings (handleCompleteBooking (Inl e) refetched bookingId st) = od_bookings st"
  "od_calls (handleCompleteBooking (Inl e) refetched bookingId st)
     = od_calls st @ [POST_bookings_complete bookingId]"
  "od_bookings (handleCompleteBooking (Inr x) (Inr data) bookingId st) = data"
  "od_bookings (handleCompleteBooking (Inr x) (Inl e') bookingId st) = od_bookings st"
  "od_calls (handleCompleteBooking (Inr x) refetched bookingId st)
     = od_calls st @ [POST_bookings_complete bookingId, GET_bookings_operator]"
  by (simp_all add: handleCompleteBooking_def fetchBookings_def Let_def split: sum.splits)

text \<open>
  C7. A successful cancel patches the local list at the status of the booking with the
  given id and nowhere else: the list keeps its length, every entry with that id is the
  old entry with status \<^verbatim>\<open>cancelled\<close> and every other field as before, and every other
  entry is unchanged. A failed cancel leaves the list unchanged. Confirm and complete
  never patch: a failed call leaves the list unchanged and issues no refetch; a
  successful one is followed by one refetch from the operator bookings endpoint, and the
  list is then the refetched data (or the old list when the refetch itself fails).
\<close>

theorem handleCancelBooking_patches_status_only:
  "length (uc_bookings (handleCancelBooking (Inr ()) bookingId st)) = length (uc_bookings st) \<and>
   (\<forall>i < length (uc_bookings st).
      (booking_id (uc_bookings st ! i) = bookingId \<longrightarrow>
         uc_bookings (handleCancelBooking (Inr ()) bookingId st) ! i
           = (uc_bookings st ! i)\<lparr>status := ''cancelled''\<rparr>) \<and>
      (booking_id (uc_bookings st ! i) \<noteq> bookingId \<longrightarrow>
         uc_bookings (handleCancelBooking (Inr ()) bookingId st) ! i = uc_bookings st ! i) \<and>
      (uc_bookings (handleCancelBooking (Inr ()) bookingId st) ! i)\<lparr>status := s\<rparr>
         = (uc_bookings st ! i)\<lparr>status := s\<rparr>) \<and>
   uc_bookings (handleCancelBooking (Inl e) bookingId st) = uc_bookings st \<and>
   od_bookings (handleConfirmBooking (Inl e) refetched bookingId ost) = od_bookings ost \<and>
   od_calls (handleConfirmBooking (Inl e) refetched bookingId ost)
     = od_calls ost @ [POST_bookings_confirm bookingId] \<and>
   od_bookings (handleConfirmBooking (Inr ()) (Inr data) bookingId ost) = data \<and>
   od_bookings (handleConfirmBooking (Inr ()) (Inl e') bookingId ost) = od_bookings ost \<and>
   od_calls (handleConfirmBooking (Inr ()) refetched bookingId ost)
     = od_calls ost @ [POST_bookings_confirm bookingId, GET_bookings_operator] \<and>
   od_bookings (handleCompleteBooking (Inl e) refetched bookingId ost) = od_bookings ost \<and>
   od_calls (handleCompleteBooking (Inl e) refetched bookingId ost)
     = od_calls ost @ [POST_bookings_complete bookingId] \<and>
   od_bookings (handleCompleteBooking (Inr ()) (Inr data) bookingId ost) = data \<and>
   od_bookings (handleCompleteBooking (Inr ()) (Inl e') bookingId ost) = od_bookings ost \<and>
   od_calls (handleCompleteBooking (Inr ()) refetched bookingId ost)
     = od_calls ost @ [POST_bookings_complete bookingId, GET_bookings_operator]"
proof -
  have patch: "\<forall>i < length (uc_bookings st).
      (booking_id (uc_bookings st ! i) = bookingId \<longrightarrow>
         uc_bookings (handleCancelBooking (Inr ()) bookingId st) ! i
           = (uc_bookings st ! i)\<lparr>status := ''cancelled''\<rparr>) \<and>
      (booking_id (uc_bookings st ! i) \<noteq> bookingId \<longrightarrow>
         uc_bookings (handleCancelBooking (Inr ()) bookingId st) ! i = uc_bookings st ! i) \<and>
      (uc_bookings (handleCancelBooking (Inr ()) bookingId st) ! i)\<lparr>status := s\<rparr>
         = (uc_bookings st ! i)\<lparr>status := s\<rparr>"
    by (simp add: handleCancelBooking_success)
  have len: "length (uc_bookings (handleCancelBooking (Inr ()) bookingId st))
      = length (uc_bookings st)"
    by (simp add: handleCancelBooking_success)
  show ?thesis
    using patch len
    by (simp only: handleCancelBooking_failure handleConfirmBooking_cases
          handleCompleteBooking_cases simp_thms)
qed

theorem handleCancelBooking_patches_status_only_witness:
  "uc_bookings
     (handleCancelBooking (Inr ()) 2
        \<lparr>uc_bookings =
           [\<lparr>booking_id = 1, hotelName = ''Bay'', hotelAddress = ''1 Pier'',
             checkInDate = ''2025-01-01'', checkOutDate = ''2025-01-03'', guestCount = 2,
             totalPrice = 200, status = ''confirmed'', specialRequests = None,
             createdAt = ''2024-12-01''\<rparr>,
            \<lparr>booking_id = 2, hotelName = ''Hill'', hotelAddress = ''9 Top'',
             checkInDate = ''2025-02-01'', checkOutDate = ''2025-02-02'', guestCount = 1,
             totalPrice = 80, status = ''pending'', specialRequests = Some ''late'',
             createdAt = ''2024-12-02''\<rparr>],
         uc_snackbar = \<lparr>snackbar_open = False, snackbar_message = '''',
                        snackbar_severity = Success\<rparr>,
         uc_calls = []\<rparr>) ! 1
   = \<lparr>booking_id = 2, hotelName = ''Hill'', hotelAddress = ''9 Top'',
       checkInDate = ''2025-02-01'', checkOutDate = ''2025-02-02'', guestCount = 1,
       totalPrice = 80, status = ''cancelled'', specialRequests = Some ''late'',
       createdAt = ''2024-12-02''\<rparr> \<and>
  uc_bookings
     (handleCancelBooking (Inr ()) 2
        \<lparr>uc_bookings =
           [\<lparr>booking_id = 1, hotelName = ''Bay'', hotelAddress = ''1 Pier'',
             checkInDate = ''2025-01-01'', checkOutDate = ''2025-01-03'', guestCount = 2,
             totalPrice = 200, status = ''confirmed'', specialRequests = None,
             createdAt = ''2024-12-01''\<rparr>,
            \<lparr>booking_id = 2, hotelName = ''Hill'', hotelAddress = ''9 Top'',
             checkInDate = ''2025-02-01'', checkOutDate = ''2025-02-02'', guestCount = 1,
             totalPrice = 80, status = ''pending'', specialRequests = Some ''late'',
             createdAt = ''2024-12-02''\<rparr>],
         uc_snackbar = \<lparr>snackbar_open = False, snackbar_message = '''',
                        snackbar_severity = Success\<rparr>,
         uc_calls = []\<rparr>) ! 0
   = \<lparr>booking_id = 1, hotelName = ''Bay'', hotelAddress = ''1 Pier'',
             checkInDate = ''2025-01-01'', checkOutDate = ''2025-01-03'', guestCount = 2,
             totalPrice = 200, status = ''confirmed'', specialRequests = None,
             createdAt = ''2024-12-01''\<rparr>"
proof -
  let ?b1 = "\<lparr>booking_id = 1, hotelName = ''Bay'', hotelAddress = ''1 Pier'',
             checkInDate = ''2025-01-01'', checkOutDate = ''2025-01-03'', guestCount = 2,
             totalPrice = 200, status = ''confirmed'', specialRequests = None,
             createdAt = ''2024-12-01''\<rparr>"
  let ?b2 = "\<lparr>booking_id = 2, hotelName = ''Hill'', hotelAddress = ''9 Top'',
             checkInDate = ''2025-02-01'', checkOutDate = ''2025-02-02'', guestCount = 1,
             totalPrice = 80, status = ''pending'', specialRequests = Some ''late'',
             createdAt = ''2024-12-02''\<rparr>"
  let ?st = "\<lparr>uc_bookings = [?b1, ?b2],
         uc_snackbar = \<lparr>snackbar_open = False, snackbar_message = '''',
                        snackbar_severity = Success\<rparr>,
         uc_calls = []\<rparr>"
  note fact = handleCancelBooking_patches_status_only [of 2 ?st]
  from fact have q: "\<forall>i < length (uc_bookings ?st).
      (booking_id (uc_bookings ?st ! i) = 2 \<longrightarrow>
         uc_bookings (handleCancelBooking (Inr ()) 2 ?st) ! i
           = (uc_bookings ?st ! i)\<lparr>status := ''cancelled''\<rparr>) \<and>
      (booking_id (uc_bookings ?st ! i) \<noteq> 2 \<longrightarrow>
         uc_bookings (handleCancelBooking (Inr ()) 2 ?st) ! i = uc_bookings ?st ! i)"
    by blast
  from q [rule_format, of 0] q [rule_format, of 1] show ?thesis
    by simp
qed

text \<open>
  C8. A booking whose status is \<^verbatim>\<open>cancelled\<close> or \<^verbatim>\<open>completed\<close> gets no mutating action in
  either view. The operator dashboard renders the confirm action exactly for status
  \<^verbatim>\<open>pending\<close> and the complete action exactly for status \<^verbatim>\<open>confirmed\<close>, and never a
  cancel action; the user centre renders the cancel action exactly for status
  \<^verbatim>\<open>pending\<close>, and never a confirm or complete action.
\<close>

theorem booking_actions_follow_status:
  "(status b = ''cancelled'' \<or> status b = ''completed'' \<longrightarrow> user_booking_actions b = []) \<and>
   (status ob = ''cancelled'' \<or> status ob = ''completed'' \<longrightarrow> operator_booking_actions ob = []) \<and>
   (Confirm_Booking i \<in> set (operator_booking_actions ob)
      \<longleftrightarrow> status ob = ''pending'' \<and> i = booking_id ob) \<and>
   (Complete_Booking i \<in> set (operator_booking_actions ob)
      \<longleftrightarrow> status ob = ''confirmed'' \<and> i = booking_id ob) \<and>
   Cancel_Booking i \<notin> set (operator_booking_actions ob) \<and>
   (Cancel_Booking i \<in> set (user_booking_actions b)
      \<longleftrightarrow> status b = ''pending'' \<and> i = booking_id b) \<and>
   Confirm_Booking i \<notin> set (user_booking_actions b) \<and>
   Complete_Booking i \<notin> set (user_booking_actions b)"
  by (auto simp: user_booking_actions_def operator_booking_actions_def)

theorem booking_actions_follow_status_witness:
  "user_booking_actions
     \<lparr>booking_id = 1, hotelName = ''Bay'', hotelAddress = ''1 Pier'',
      checkInDate = ''2025-01-01'', checkOutDate = ''2025-01-03'', guestCount = 2,
      totalPrice = 200, status = ''cancelled'', specialRequests = None,
      createdAt = ''2024-12-01''\<rparr> = [] \<and>
   operator_booking_actions
     \<lparr>booking_id = 2, hotelName = ''Hill'', hotelAddress = ''9 Top'',
      checkInDate = ''2025-02-01'', checkOutDate = ''2025-02-02'', guestCount = 1,
      totalPrice = 80, status = ''completed'', specialRequests = None,
      createdAt = ''2024-12-02'', userEmail = ''a@b.com''\<rparr> = [] \<and>
   Confirm_Booking 3 \<in> set (operator_booking_actions
     \<lparr>booking_id = 3, hotelName = ''Hill'', hotelAddress = ''9 Top'',
      checkInDate = ''2025-02-01'', checkOutDate = ''2025-02-02'', guestCount = 1,
      totalPrice = 80, status = ''pending'', specialRequests = None,
      createdAt = ''2024-12-02'', userEmail = ''a@b.com''\<rparr>)"
  using
    booking_actions_follow_status
      [of "\<lparr>booking_id = 1, hotelName = ''Bay'', hotelAddress = ''1 Pier'',
            checkInDate = ''2025-01-01'', checkOutDate = ''2025-01-03'', guestCount = 2,
            totalPrice = 200, status = ''cancelled'', specialRequests = None,
            createdAt = ''2024-12-01''\<rparr>"
          "\<lparr>booking_id = 2, hotelName = ''Hill'', hotelAddress = ''9 Top'',
            checkInDate = ''2025-02-01'', checkOutDate = ''2025-02-02'', guestCount = 1,
            totalPrice = 80, status = ''completed'', specialRequests = None,
            createdAt = ''2024-12-02'', userEmail = ''a@b.com''\<rparr>"]
    booking_actions_follow_status
      [of _
          "\<lparr>booking_id = 3, hotelName = ''Hill'', hotelAddress = ''9 Top'',
            checkInDate = ''2025-02-01'', checkOutDate = ''2025-02-02'', guestCount = 1,
            totalPrice = 80, status = ''pending'', specialRequests = None,
            createdAt = ''2024-12-02'', userEmail = ''a@b.com''\<rparr>" 3]
  by simp

section \<open>Hotel card and detail page properties\<close>

text \<open>
  C9. In a hotel card of the operator dashboard the edit and the delete button are
  enabled if and only if a session is present and the hotel's \<^verbatim>\<open>operatorId\<close> equals the
  session user's id. For an owned hotel pressing them runs the edit and the delete
  handler for that hotel; for any other hotel pressing either button runs nothing (the
  delete button keeps its \<^verbatim>\<open>onClick\<close> but is disabled).
\<close>

theorem hotel_card_actions_owner_only:
  "(\<not> disabled (edit_button usr h) \<longleftrightarrow> (\<exists>u. usr = Some u \<and> operatorId h = user_id u)) \<and>
   (\<not> disabled (delete_button usr h) \<longleftrightarrow> (\<exists>u. usr = Some u \<and> operatorId h = user_id u)) \<and>
   ((\<exists>u. usr = Some u \<and> operatorId h = user_id u) \<longrightarrow>
      click (edit_button usr h) = Some (Open_Dialog h) \<and>
      click (delete_button usr h) = Some (Delete_Hotel (hotel_id h))) \<and>
   (\<not> (\<exists>u. usr = Some u \<and> operatorId h = user_id u) \<longrightarrow>
      click (edit_button usr h) = None \<and> click (delete_button usr h) = None)"
  by (auto simp: edit_button_def delete_button_def click_def is_mine_def split: option.splits)

theorem hotel_card_actions_owner_only_witness:
  "click (edit_button (Some \<lparr>user_id = 2, user_email = ''op@b.com'', user_role = ''operator''\<rparr>)
     \<lparr>hotel_id = 10, hotel_name = ''Bay'', hotel_address = ''1 Pier'', description = None,
      price = 100, availableRooms = 4, operatorId = 2\<rparr>)
     = Some (Open_Dialog
         \<lparr>hotel_id = 10, hotel_name = ''Bay'', hotel_address = ''1 Pier'', description = None,
          price = 100, availableRooms = 4, operatorId = 2\<rparr>) \<and>
   click (delete_button (Some \<lparr>user_id = 2, user_email = ''op@b.com'', user_role = ''operator''\<rparr>)
     \<lparr>hotel_id = 10, hotel_name = ''Bay'', hotel_address = ''1 Pier'', description = None,
      price = 100, availableRooms = 4, operatorId = 2\<rparr>) = Some (Delete_Hotel 10) \<and>
   click (edit_button (Some \<lparr>user_id = 2, user_email = ''op@b.com'', user_role = ''operator''\<rparr>)
     \<lparr>hotel_id = 11, hotel_name = ''Hill'', hotel_address = ''9 Top'', description = None,
      price = 80, availableRooms = 1, operatorId = 5\<rparr>) = None \<and>
   click (delete_button (Some \<lparr>user_id = 2, user_email = ''op@b.com'', user_role = ''operator''\<rparr>)
     \<lparr>hotel_id = 11, hotel_name = ''Hill'', hotel_address = ''9 Top'', description = None,
      price = 80, availableRooms = 1, operatorId = 5\<rparr>) = None"
  using
    hotel_card_actions_owner_only
      [of "Some \<lparr>user_id = 2, user_email = ''op@b.com'', user_role = ''operator''\<rparr>"
          "\<lparr>hotel_id = 10, hotel_name = ''Bay'', hotel_address = ''1 Pier'', description = None,
            price = 100, availableRooms = 4, operatorId = 2\<rparr>"]
    hotel_card_actions_owner_only
      [of "Some \<lparr>user_id = 2, user_email = ''op@b.com'', user_role = ''operator''\<rparr>"
          "\<lparr>hotel_id = 11, hotel_name = ''Hill'', hotel_address = ''9 Top'', description = None,
            price = 80, availableRooms = 1, operatorId = 5\<rparr>"]
  by simp






end
